theory Spec2Isabelle
  imports Main "HOL-Library.Word"
begin

section \<open>The C types of pulsego.h\<close>

text \<open>
  The three functions of \<^verbatim>\<open>pulsego.c\<close> are callbacks registered with the PulseAudio client
  library. Each one receives the library's arguments and calls one function that is
  declared \<^verbatim>\<open>extern\<close> in \<^verbatim>\<open>pulsego.h\<close> and implemented by the host program.

  Pointers are addresses; the pointee types of \<^verbatim>\<open>pulse/pulseaudio.h\<close> are opaque here, since
  the relay never dereferences a pointer. A pointer to \<^verbatim>\<open>const T\<close> and a pointer to \<^verbatim>\<open>T\<close> are
  different types, as in C, and the cast between them keeps the address.
\<close>

type_synonym addr = "64 word"

text \<open>C's \<^verbatim>\<open>int\<close> (read it with \<^const>\<open>sint\<close>) and \<^verbatim>\<open>uint32_t\<close>.\<close>

type_synonym c_int = "32 word"
type_synonym uint32_t = "32 word"

text \<open>
  \<^verbatim>\<open>pa_subscription_event_type_t\<close> is an enum of the PulseAudio headers; the relay passes its
  integer value on without looking at it, so the model keeps that value, whatever it is.
\<close>

type_synonym pa_subscription_event_type_t = "32 word"

typedecl pa_context
typedecl pa_card_info
typedecl pa_sink_info
typedecl c_void

datatype 'a ptr = Ptr addr
datatype 'a const_ptr = Const_ptr addr

fun ptr_val :: "'a ptr \<Rightarrow> addr" where
  "ptr_val (Ptr a) = a"

fun const_ptr_val :: "'a const_ptr \<Rightarrow> addr" where
  "const_ptr_val (Const_ptr a) = a"

text \<open>The cast \<^verbatim>\<open>(pa_card_info*)i\<close> of a \<^verbatim>\<open>const pa_card_info *i\<close>: the same address, seen as
  a pointer to a non-const object.\<close>

fun cast_away_const :: "'a const_ptr \<Rightarrow> 'a ptr" where
  "cast_away_const (Const_ptr a) = Ptr a"

section \<open>The host handlers\<close>

text \<open>
  What a call of an \<^verbatim>\<open>extern void\<close> function can do, seen from its caller, on a program state
  of type \<^typ>\<open>'s\<close> (everything the program can read or write): return with a new state,
  leave its frame by a failure that unwinds towards the caller, or never come back.
\<close>

datatype 's outcome = Returns 's | Fails 's | Hangs

text \<open>
  \<^verbatim>\<open>go_card_info_cb\<close>, \<^verbatim>\<open>go_sink_info_cb\<close> and \<^verbatim>\<open>go_context_subscribe_cb\<close> are only declared in
  \<^verbatim>\<open>pulsego.h\<close>; their bodies belong to the host. They are parameters of the model, with
  the argument lists of the declarations.
\<close>

record 's host =
  go_card_info_cb :: "pa_card_info ptr \<Rightarrow> c_int \<Rightarrow> c_void ptr \<Rightarrow> 's \<Rightarrow> 's outcome"
  go_sink_info_cb :: "pa_sink_info ptr \<Rightarrow> c_int \<Rightarrow> c_void ptr \<Rightarrow> 's \<Rightarrow> 's outcome"
  go_context_subscribe_cb ::
    "pa_subscription_event_type_t \<Rightarrow> uint32_t \<Rightarrow> c_void ptr \<Rightarrow> 's \<Rightarrow> 's outcome"

text \<open>A call of a host handler, with the arguments it is given.\<close>

datatype host_call =
    Card_info_call "pa_card_info ptr" c_int "c_void ptr"
  | Sink_info_call "pa_sink_info ptr" c_int "c_void ptr"
  | Subscribe_call pa_subscription_event_type_t uint32_t "c_void ptr"

fun host_invoke :: "'s host \<Rightarrow> host_call \<Rightarrow> 's \<Rightarrow> 's outcome" where
  "host_invoke H (Card_info_call i eol userdata) s = go_card_info_cb H i eol userdata s"
| "host_invoke H (Sink_info_call i eol userdata) s = go_sink_info_cb H i eol userdata s"
| "host_invoke H (Subscribe_call t idx userdata) s = go_context_subscribe_cb H t idx userdata s"

text \<open>
  A function of the relay yields the host calls it made, in order, and the outcome of
  running it. One call statement makes one host call and ends as that call ends.
\<close>

type_synonym 's run = "host_call list \<times> 's outcome"

definition extern_call :: "'s host \<Rightarrow> host_call \<Rightarrow> 's \<Rightarrow> 's run" where
  "extern_call H call s = ([call], host_invoke H call s)"

section \<open>pulsego.c\<close>

definition card_info_cb ::
  "'s host \<Rightarrow> pa_context ptr \<Rightarrow> pa_card_info const_ptr \<Rightarrow> c_int \<Rightarrow> c_void ptr \<Rightarrow> 's \<Rightarrow> 's run" where
  "card_info_cb H c i eol userdata =
     extern_call H (Card_info_call (cast_away_const i) eol userdata)"

definition sink_info_cb ::
  "'s host \<Rightarrow> pa_context ptr \<Rightarrow> pa_sink_info const_ptr \<Rightarrow> c_int \<Rightarrow> c_void ptr \<Rightarrow> 's \<Rightarrow> 's run" where
  "sink_info_cb H c i eol userdata =
     extern_call H (Sink_info_call (cast_away_const i) eol userdata)"

definition context_subscribe_cb ::
  "'s host \<Rightarrow> pa_context ptr \<Rightarrow> pa_subscription_event_type_t \<Rightarrow> uint32_t \<Rightarrow> c_void ptr
     \<Rightarrow> 's \<Rightarrow> 's run" where
  "context_subscribe_cb H c t idx userdata =
     extern_call H (Subscribe_call t idx userdata)"

section \<open>Sequences of notifications\<close>

text \<open>
  Modelled from the spec: the event source is the PulseAudio library, which is not part of
  this repository. The spec (sections 3 and 5) says that it invokes the callbacks one
  after another on one thread, in the order of the notifications. A notification is one
  such invocation with its four arguments; \<open>dispatch\<close> makes the invocations in order and
  goes on to the next one when the previous one has returned.
\<close>

datatype notification =
    Card_info "pa_context ptr" "pa_card_info const_ptr" c_int "c_void ptr"
  | Sink_info "pa_context ptr" "pa_sink_info const_ptr" c_int "c_void ptr"
  | Subscription "pa_context ptr" pa_subscription_event_type_t uint32_t "c_void ptr"

fun relay :: "'s host \<Rightarrow> notification \<Rightarrow> 's \<Rightarrow> 's run" where
  "relay H (Card_info c i eol userdata) = card_info_cb H c i eol userdata"
| "relay H (Sink_info c i eol userdata) = sink_info_cb H c i eol userdata"
| "relay H (Subscription c t idx userdata) = context_subscribe_cb H c t idx userdata"

fun dispatch :: "'s host \<Rightarrow> notification list \<Rightarrow> 's \<Rightarrow> 's run" where
  "dispatch H [] s = ([], Returns s)"
| "dispatch H (n # ns) s =
     (case relay H n s of
        (calls, Returns s') \<Rightarrow>
          (case dispatch H ns s' of (calls', out) \<Rightarrow> (calls @ calls', out))
      | (calls, Fails s') \<Rightarrow> (calls, Fails s')
      | (calls, Hangs) \<Rightarrow> (calls, Hangs))"

text \<open>
  The end-of-list protocol of section 3 of the spec, on the side of the event source and
  on the side of the host: the snapshot pointer is null exactly when the end-of-list
  argument is true (non-zero, as C reads an \<^verbatim>\<open>int\<close>). A subscription event has no snapshot.
\<close>

fun source_protocol :: "notification \<Rightarrow> bool" where
  "source_protocol (Card_info c i eol userdata) = ((const_ptr_val i = 0) = (eol \<noteq> 0))"
| "source_protocol (Sink_info c i eol userdata) = ((const_ptr_val i = 0) = (eol \<noteq> 0))"
| "source_protocol (Subscription c t idx userdata) = True"

fun host_protocol :: "host_call \<Rightarrow> bool" where
  "host_protocol (Card_info_call i eol userdata) = ((ptr_val i = 0) = (eol \<noteq> 0))"
| "host_protocol (Sink_info_call i eol userdata) = ((ptr_val i = 0) = (eol \<noteq> 0))"
| "host_protocol (Subscribe_call t idx userdata) = True"


text \<open>The program state an outcome leaves behind, when there is one.\<close>

fun state_after :: "'s outcome \<Rightarrow> 's option" where
  "state_after (Returns s) = Some s"
| "state_after (Fails s) = Some s"
| "state_after Hangs = None"

section \<open>Two hosts to run the relay with\<close>

text \<open>
  The state of a small host program: the calls its handlers have seen, in order, and a
  volume setting that no handler touches.
\<close>

record app_state =
  seen :: "host_call list"
  volume :: nat

text \<open>A host whose handlers note what they were given and return.\<close>

definition recording_host :: "app_state host" where
  "recording_host =
     \<lparr> go_card_info_cb = (\<lambda>i eol userdata s.
          Returns (s\<lparr>seen := seen s @ [Card_info_call i eol userdata]\<rparr>)),
       go_sink_info_cb = (\<lambda>i eol userdata s.
          Returns (s\<lparr>seen := seen s @ [Sink_info_call i eol userdata]\<rparr>)),
       go_context_subscribe_cb = (\<lambda>t idx userdata s.
          Returns (s\<lparr>seen := seen s @ [Subscribe_call t idx userdata]\<rparr>)) \<rparr>"

text \<open>A host whose handlers note what they were given and then fail.\<close>

definition failing_host :: "app_state host" where
  "failing_host =
     \<lparr> go_card_info_cb = (\<lambda>i eol userdata s.
          Fails (s\<lparr>seen := seen s @ [Card_info_call i eol userdata]\<rparr>)),
       go_sink_info_cb = (\<lambda>i eol userdata s.
          Fails (s\<lparr>seen := seen s @ [Sink_info_call i eol userdata]\<rparr>)),
       go_context_subscribe_cb = (\<lambda>t idx userdata s.
          Fails (s\<lparr>seen := seen s @ [Subscribe_call t idx userdata]\<rparr>)) \<rparr>"

definition app_start :: app_state where
  "app_start = \<lparr> seen = [], volume = 50 \<rparr>"

section \<open>Auxiliary facts\<close>

lemma ptr_val_cast_away_const: "ptr_val (cast_away_const i) = const_ptr_val i"
  by (cases i) simp

lemma cast_away_const_eq: "cast_away_const i = Ptr (const_ptr_val i)"
  by (cases i) simp

lemma relay_single_call: "\<exists>call. relay H n s = ([call], host_invoke H call s)"
  by (cases n)
     (simp_all add: card_info_cb_def sink_info_cb_def context_subscribe_cb_def extern_call_def)

lemma relay_keeps_protocol:
  assumes "source_protocol n"
  shows "\<exists>call. relay H n s = ([call], host_invoke H call s) \<and> host_protocol call"
  using assms
  by (cases n)
     (simp_all add: card_info_cb_def sink_info_cb_def context_subscribe_cb_def
        extern_call_def ptr_val_cast_away_const)

section \<open>Forwarding\<close>

text \<open>
  C1. Every invocation of \<^verbatim>\<open>card_info_cb\<close> and of \<^verbatim>\<open>sink_info_cb\<close> makes one call of its host
  handler, with the snapshot pointer, the end-of-list value and the userdata pointer it
  received. No value is changed: the pointer handed on holds the address received, now
  typed as a pointer to a non-const object, and the handler runs on the program state
  the relay was entered with, so it reads the fields of the snapshot as the event source
  left them. The invocation ends as that call ends.
\<close>

theorem info_cb_forwards_triple:
  "card_info_cb H c i eol userdata s =
     ([Card_info_call (Ptr (const_ptr_val i)) eol userdata],
      go_card_info_cb H (Ptr (const_ptr_val i)) eol userdata s)
   \<and> sink_info_cb H c j eol' userdata' s =
     ([Sink_info_call (Ptr (const_ptr_val j)) eol' userdata'],
      go_sink_info_cb H (Ptr (const_ptr_val j)) eol' userdata' s)"
  by (simp add: card_info_cb_def sink_info_cb_def extern_call_def cast_away_const_eq)

text \<open>
  C2. Every invocation of \<^verbatim>\<open>context_subscribe_cb\<close> with event type \<open>t\<close>, object index \<open>idx\<close>
  and context \<open>userdata\<close> makes one call of the host's subscription handler, with exactly
  \<open>(t, idx, userdata)\<close>.
\<close>

theorem subscribe_cb_forwards_event:
  "context_subscribe_cb H c t idx userdata s =
     ([Subscribe_call t idx userdata], go_context_subscribe_cb H t idx userdata s)"
  by (simp add: context_subscribe_cb_def extern_call_def)


section \<open>Failures of the host handler\<close>

text \<open>
  C4, as the spec states it, asks the relay to contain a failure of the host handler. The
  relay has nothing that could: with a host whose endpoint handler fails, the invocation
  of \<^verbatim>\<open>sink_info_cb\<close> ends with that very failure, in the state the handler left, and so
  the failure is back in the event source.
\<close>

theorem host_failure_reaches_event_source:
  "go_sink_info_cb failing_host (Ptr 16) 0 (Ptr 7) app_start
     = Fails \<lparr> seen = [Sink_info_call (Ptr 16) 0 (Ptr 7)], volume = 50 \<rparr>
   \<and> snd (sink_info_cb failing_host (Ptr 1) (Const_ptr 16) 0 (Ptr 7) app_start)
     = Fails \<lparr> seen = [Sink_info_call (Ptr 16) 0 (Ptr 7)], volume = 50 \<rparr>"
  by (simp add: sink_info_cb_def extern_call_def failing_host_def app_start_def)

text \<open>
  C4, amended. A relay function adds no failure of its own and contains none: the event
  source gets exactly the outcome of the one host call. The relay returns when the
  handler returns, fails when the handler fails and does not come back when the handler
  does not.
\<close>

theorem relay_outcome_is_handler_outcome:
  "snd (card_info_cb H c i eol userdata s)
     = go_card_info_cb H (cast_away_const i) eol userdata s
   \<and> snd (sink_info_cb H c j eol userdata s)
     = go_sink_info_cb H (cast_away_const j) eol userdata s
   \<and> snd (context_subscribe_cb H c t idx userdata s)
     = go_context_subscribe_cb H t idx userdata s"
  by (simp add: card_info_cb_def sink_info_cb_def context_subscribe_cb_def extern_call_def)

section \<open>The end-of-list protocol\<close>

text \<open>
  C5. When the event source delivers a sequence of notifications in which every
  list-producing one has a null snapshot exactly when its end-of-list argument is true,
  then every host call made for the sequence has a null snapshot exactly when the
  end-of-list argument it is given is true.
\<close>

theorem end_of_list_protocol_preserved:
  "list_all source_protocol ns \<Longrightarrow> list_all host_protocol (fst (dispatch H ns s))"
proof (induction ns arbitrary: s)
  case Nil
  then show ?case by simp
next
  case (Cons n ns)
  from Cons.prems have first: "source_protocol n" and rest: "list_all source_protocol ns"
    by simp_all
  from relay_keeps_protocol [OF first, of H s]
  obtain call where r: "relay H n s = ([call], host_invoke H call s)"
    and p: "host_protocol call"
    by blast
  show ?case
  proof (cases "host_invoke H call s")
    case (Returns s')
    with r p Cons.IH [OF rest, of s'] show ?thesis
      by (cases "dispatch H ns s'") simp
  next
    case (Fails s')
    with r p show ?thesis by simp
  next
    case Hangs
    with r p show ?thesis by simp
  qed
qed

text \<open>
  An endpoint query with two endpoints: two snapshots, then the end of the list. The
  host sees the three calls, each within the protocol.
\<close>

theorem end_of_list_protocol_preserved_witness:
  "list_all source_protocol
     [Sink_info (Ptr 1) (Const_ptr 16) 0 (Ptr 7), Sink_info (Ptr 1) (Const_ptr 32) 0 (Ptr 7),
      Sink_info (Ptr 1) (Const_ptr 0) 1 (Ptr 7)]
   \<and> list_all host_protocol (fst (dispatch recording_host
     [Sink_info (Ptr 1) (Const_ptr 16) 0 (Ptr 7), Sink_info (Ptr 1) (Const_ptr 32) 0 (Ptr 7),
      Sink_info (Ptr 1) (Const_ptr 0) 1 (Ptr 7)] app_start))
   \<and> fst (dispatch recording_host
     [Sink_info (Ptr 1) (Const_ptr 16) 0 (Ptr 7), Sink_info (Ptr 1) (Const_ptr 32) 0 (Ptr 7),
      Sink_info (Ptr 1) (Const_ptr 0) 1 (Ptr 7)] app_start)
     = [Sink_info_call (Ptr 16) 0 (Ptr 7), Sink_info_call (Ptr 32) 0 (Ptr 7),
        Sink_info_call (Ptr 0) 1 (Ptr 7)]"
  using end_of_list_protocol_preserved [of
     "[Sink_info (Ptr 1) (Const_ptr 16) 0 (Ptr 7), Sink_info (Ptr 1) (Const_ptr 32) 0 (Ptr 7),
      Sink_info (Ptr 1) (Const_ptr 0) 1 (Ptr 7)]" recording_host app_start]
  by (simp add: sink_info_cb_def extern_call_def recording_host_def app_start_def)

text \<open>
  C6. The event source calls \<^verbatim>\<open>card_info_cb\<close> with \<open>(src, snap1, false, ctx)\<close> and, once that
  call has returned, with \<open>(src, null, true, ctx)\<close>. The host's device handler is called
  exactly twice: first with \<open>(snap1, false, ctx)\<close>, then with \<open>(null, true, ctx)\<close>, on the
  state its first call left. False is 0 and true is any other value of the \<^verbatim>\<open>int\<close>.
\<close>

theorem two_device_calls_in_order:
  assumes "go_card_info_cb H (cast_away_const snap1) 0 ctx s = Returns s1"
    and "eol_true \<noteq> 0"
  shows "dispatch H [Card_info src snap1 0 ctx, Card_info src (Const_ptr 0) eol_true ctx] s =
     ([Card_info_call (cast_away_const snap1) 0 ctx, Card_info_call (Ptr 0) eol_true ctx],
      go_card_info_cb H (Ptr 0) eol_true ctx s1)"
  using assms(1)
  by (cases "go_card_info_cb H (Ptr 0) eol_true ctx s1")
     (simp_all add: card_info_cb_def extern_call_def)

theorem two_device_calls_in_order_witness:
  "go_card_info_cb recording_host (cast_away_const (Const_ptr 16)) 0 (Ptr 7) app_start
     = Returns \<lparr> seen = [Card_info_call (Ptr 16) 0 (Ptr 7)], volume = 50 \<rparr>
   \<and> (1 :: c_int) \<noteq> 0
   \<and> dispatch recording_host
       [Card_info (Ptr 1) (Const_ptr 16) 0 (Ptr 7), Card_info (Ptr 1) (Const_ptr 0) 1 (Ptr 7)]
       app_start
     = ([Card_info_call (Ptr 16) 0 (Ptr 7), Card_info_call (Ptr 0) 1 (Ptr 7)],
        Returns \<lparr> seen = [Card_info_call (Ptr 16) 0 (Ptr 7), Card_info_call (Ptr 0) 1 (Ptr 7)],
                  volume = 50 \<rparr>)"
proof -
  have h: "go_card_info_cb recording_host (cast_away_const (Const_ptr 16)) 0 (Ptr 7) app_start
     = Returns \<lparr> seen = [Card_info_call (Ptr 16) 0 (Ptr 7)], volume = 50 \<rparr>"
    by (simp add: recording_host_def app_start_def)
  have t: "(1 :: c_int) \<noteq> 0" by simp
  show ?thesis
    using h t two_device_calls_in_order [OF h t, of "Ptr 1"]
    by (simp add: recording_host_def)
qed

section \<open>Notifications outside the protocol\<close>

text \<open>
  C7, as the spec states it, asks the relay to ignore or log a notification that breaks the
  protocol instead of forwarding it. The relay checks nothing: a device notification with
  a null snapshot and the end-of-list argument false is handed to the host handler like
  any other.
\<close>

theorem null_snapshot_without_eol_is_forwarded:
  "card_info_cb recording_host (Ptr 1) (Const_ptr 0) 0 (Ptr 7) app_start =
     ([Card_info_call (Ptr 0) 0 (Ptr 7)],
      Returns \<lparr> seen = [Card_info_call (Ptr 0) 0 (Ptr 7)], volume = 50 \<rparr>)"
  by (simp add: card_info_cb_def extern_call_def recording_host_def app_start_def)

text \<open>
  C7, amended. The relay does not validate what it receives. A device or endpoint
  notification that breaks the end-of-list protocol, be it a null snapshot with the
  end-of-list argument false or a snapshot with the end-of-list argument true, is
  forwarded once to its handler, with the address, the end-of-list value and the userdata
  as received, and the invocation ends as that call ends; the relay itself never reads
  through the pointer. Every value of the event type, whether or not the enum has a
  member for it, is forwarded once with its index and userdata to the subscription
  handler, and the invocation ends as that call ends.
\<close>

theorem relay_forwards_without_validation:
  "(\<not> source_protocol (Card_info c i eol userdata) \<longrightarrow>
      card_info_cb H c i eol userdata s =
        ([Card_info_call (Ptr (const_ptr_val i)) eol userdata],
         go_card_info_cb H (Ptr (const_ptr_val i)) eol userdata s))
   \<and> (\<not> source_protocol (Sink_info c j eol userdata) \<longrightarrow>
      sink_info_cb H c j eol userdata s =
        ([Sink_info_call (Ptr (const_ptr_val j)) eol userdata],
         go_sink_info_cb H (Ptr (const_ptr_val j)) eol userdata s))
   \<and> context_subscribe_cb H c t idx userdata s =
        ([Subscribe_call t idx userdata], go_context_subscribe_cb H t idx userdata s)"
  by (simp add: card_info_cb_def sink_info_cb_def context_subscribe_cb_def extern_call_def
        cast_away_const_eq)

text \<open>
  Two notifications outside the protocol, relayed to a host whose handlers fail: an
  endpoint snapshot at address 32 that comes with the end-of-list argument true, and a
  device notification with a null snapshot and the end-of-list argument false. Each is
  handed to its handler as it came, and the invocation ends with the handler's failure.
\<close>

theorem relay_forwards_without_validation_witness:
  "\<not> source_protocol (Card_info (Ptr 1) (Const_ptr 0) 0 (Ptr 7))
   \<and> card_info_cb failing_host (Ptr 1) (Const_ptr 0) 0 (Ptr 7) app_start =
       ([Card_info_call (Ptr 0) 0 (Ptr 7)],
        Fails \<lparr> seen = [Card_info_call (Ptr 0) 0 (Ptr 7)], volume = 50 \<rparr>)
   \<and> \<not> source_protocol (Sink_info (Ptr 1) (Const_ptr 32) 1 (Ptr 7))
   \<and> sink_info_cb failing_host (Ptr 1) (Const_ptr 32) 1 (Ptr 7) app_start =
       ([Sink_info_call (Ptr 32) 1 (Ptr 7)],
        Fails \<lparr> seen = [Sink_info_call (Ptr 32) 1 (Ptr 7)], volume = 50 \<rparr>)"
  using relay_forwards_without_validation [where H = failing_host and c = "Ptr 1"
    and i = "Const_ptr 0" and j = "Const_ptr 32" and eol = 0 and userdata = "Ptr 7"
    and s = app_start and t = 16 and idx = 3]
    relay_forwards_without_validation [where H = failing_host and c = "Ptr 1"
    and i = "Const_ptr 0" and j = "Const_ptr 32" and eol = 1 and userdata = "Ptr 7"
    and s = app_start and t = 16 and idx = 3]
  by (simp add: failing_host_def app_start_def)

section \<open>The event-source handle, the frame, termination\<close>

text \<open>
  C8. Two invocations of the same relay function that differ only in the \<^verbatim>\<open>pa_context\<close>
  pointer make the same host call and end the same way: the pointer is not used, and
  no host handler has a parameter for it.
\<close>

theorem relay_ignores_source_handle:
  "card_info_cb H c1 i eol userdata = card_info_cb H c2 i eol userdata
   \<and> sink_info_cb H c1 j eol userdata = sink_info_cb H c2 j eol userdata
   \<and> context_subscribe_cb H c1 t idx userdata = context_subscribe_cb H c2 t idx userdata"
  by (simp add: card_info_cb_def sink_info_cb_def context_subscribe_cb_def)

text \<open>
  C9. A relay function has no state of its own and no effect but its one host call. For
  each kind of notification, an invocation entered in state \<open>s\<close> makes a single host call,
  that call is run on \<open>s\<close> itself, and the invocation ends exactly as the call ends: the
  state it leaves is the state the handler left, so nothing is modified but what the
  host handler modifies.
\<close>

theorem relay_effect_is_one_host_call:
  "\<exists>call. fst (relay H n s) = [call]
     \<and> snd (relay H n s) = host_invoke H call s
     \<and> state_after (snd (relay H n s)) = state_after (host_invoke H call s)"
  using relay_single_call [of H n s] by auto

text \<open>
  C10. Each of the three relay functions makes exactly one call of its host handler,
  whatever its arguments are, and does nothing before or after it: the calls made are
  that one call, on the state the function was entered with, and the function ends
  exactly as the call ends, in the state the call left. So when the call of the host
  handler comes back, the invocation of the relay comes back, and when the handler
  returns, the relay returns.
\<close>

theorem relay_makes_one_call_and_terminates:
  "card_info_cb H c i eol userdata s =
     ([Card_info_call (cast_away_const i) eol userdata],
      go_card_info_cb H (cast_away_const i) eol userdata s)
   \<and> sink_info_cb H c j eol userdata s =
     ([Sink_info_call (cast_away_const j) eol userdata],
      go_sink_info_cb H (cast_away_const j) eol userdata s)
   \<and> context_subscribe_cb H c t idx userdata s =
     ([Subscribe_call t idx userdata], go_context_subscribe_cb H t idx userdata s)
   \<and> (go_card_info_cb H (cast_away_const i) eol userdata s \<noteq> Hangs
        \<longrightarrow> snd (card_info_cb H c i eol userdata s) \<noteq> Hangs)
   \<and> (go_sink_info_cb H (cast_away_const j) eol userdata s \<noteq> Hangs
        \<longrightarrow> snd (sink_info_cb H c j eol userdata s) \<noteq> Hangs)
   \<and> (go_context_subscribe_cb H t idx userdata s \<noteq> Hangs
        \<longrightarrow> snd (context_subscribe_cb H c t idx userdata s) \<noteq> Hangs)
   \<and> (\<forall>s'. go_card_info_cb H (cast_away_const i) eol userdata s = Returns s'
        \<longrightarrow> snd (card_info_cb H c i eol userdata s) = Returns s')
   \<and> (\<forall>s'. go_sink_info_cb H (cast_away_const j) eol userdata s = Returns s'
        \<longrightarrow> snd (sink_info_cb H c j eol userdata s) = Returns s')
   \<and> (\<forall>s'. go_context_subscribe_cb H t idx userdata s = Returns s'
        \<longrightarrow> snd (context_subscribe_cb H c t idx userdata s) = Returns s')"
  by (simp add: card_info_cb_def sink_info_cb_def context_subscribe_cb_def extern_call_def)

text \<open>
  With the recording host every handler returns, and so does every relay function, after
  its one call, in the state that call left.
\<close>

theorem relay_makes_one_call_and_terminates_witness:
  "go_card_info_cb recording_host (cast_away_const (Const_ptr 16)) 0 (Ptr 7) app_start \<noteq> Hangs
   \<and> go_card_info_cb recording_host (cast_away_const (Const_ptr 16)) 0 (Ptr 7) app_start
       = Returns \<lparr> seen = [Card_info_call (Ptr 16) 0 (Ptr 7)], volume = 50 \<rparr>
   \<and> card_info_cb recording_host (Ptr 1) (Const_ptr 16) 0 (Ptr 7) app_start
       = ([Card_info_call (Ptr 16) 0 (Ptr 7)],
          Returns \<lparr> seen = [Card_info_call (Ptr 16) 0 (Ptr 7)], volume = 50 \<rparr>)
   \<and> go_sink_info_cb recording_host (cast_away_const (Const_ptr 32)) 0 (Ptr 7) app_start \<noteq> Hangs
   \<and> go_sink_info_cb recording_host (cast_away_const (Const_ptr 32)) 0 (Ptr 7) app_start
       = Returns \<lparr> seen = [Sink_info_call (Ptr 32) 0 (Ptr 7)], volume = 50 \<rparr>
   \<and> sink_info_cb recording_host (Ptr 1) (Const_ptr 32) 0 (Ptr 7) app_start
       = ([Sink_info_call (Ptr 32) 0 (Ptr 7)],
          Returns \<lparr> seen = [Sink_info_call (Ptr 32) 0 (Ptr 7)], volume = 50 \<rparr>)
   \<and> go_context_subscribe_cb recording_host 16 3 (Ptr 7) app_start \<noteq> Hangs
   \<and> go_context_subscribe_cb recording_host 16 3 (Ptr 7) app_start
       = Returns \<lparr> seen = [Subscribe_call 16 3 (Ptr 7)], volume = 50 \<rparr>
   \<and> context_subscribe_cb recording_host (Ptr 1) 16 3 (Ptr 7) app_start
       = ([Subscribe_call 16 3 (Ptr 7)],
          Returns \<lparr> seen = [Subscribe_call 16 3 (Ptr 7)], volume = 50 \<rparr>)"
  using relay_makes_one_call_and_terminates [where H = recording_host and c = "Ptr 1"
    and i = "Const_ptr 16" and j = "Const_ptr 32" and eol = 0 and userdata = "Ptr 7"
    and s = app_start and t = 16 and idx = 3]
  by (simp add: recording_host_def app_start_def)

end
